theory Spec2Isabelle
  imports Complex_Main
begin

section \<open>Data model\<close>

text \<open>
  The repository holds four SvelteKit request handlers: two versions of the
  \<^verbatim>\<open>/validation-status\<close> endpoint and two versions of the \<^verbatim>\<open>/sim.json\<close> endpoint,
  each once without and once with a mock-data fallback.

  Conventions of the embedding:
  \<^item> a JavaScript \<^verbatim>\<open>number\<close> is a \<^typ>\<open>real\<close> (exact arithmetic, \<^verbatim>\<open>Math.sin\<close> is
    \<^const>\<open>sin\<close>); array lengths, counts and layer ids are \<^typ>\<open>nat\<close>;
  \<^item> the value handed to \<^verbatim>\<open>JSON.stringify\<close> is a tree of type \<open>json\<close>, an object
    being the list of its properties in insertion order;
  \<^item> a string is a \<^typ>\<open>string\<close>; the three non-ASCII characters of the source's
    literals are written as their UTF-8 bytes;
  \<^item> \<^verbatim>\<open>new Date().toISOString()\<close>, the environment variables, what the spawned
    process does and what \<^verbatim>\<open>JSON.parse\<close> answers are inputs of the handlers.
\<close>

datatype json =
    JNull
  | JBool bool
  | JNum real
  | JStr string
  | JArr "json list"
  | JObj "(string \<times> json) list"

fun json_keys :: "json \<Rightarrow> string list" where
  "json_keys (JObj kvs) = map fst kvs"
| "json_keys _ = []"

fun json_get :: "string \<Rightarrow> json \<Rightarrow> json option" where
  "json_get k (JObj kvs) = map_of kvs k"
| "json_get k _ = None"

fun is_object :: "json \<Rightarrow> bool" where
  "is_object (JObj kvs) = True"
| "is_object _ = False"

fun json_items :: "json \<Rightarrow> json list" where
  "json_items (JArr xs) = xs"
| "json_items _ = []"

text \<open>\<^verbatim>\<open>status: 'pass' | 'fail' | 'not_implemented' | 'partial'\<close>\<close>

datatype layer_status = Pass | Fail | NotImplemented | Partial

text \<open>\<^verbatim>\<open>overall_status: 'pass' | 'fail'\<close>\<close>

datatype overall = OverallPass | OverallFail

text \<open>\<^verbatim>\<open>interface ValidationLayer\<close>; the field \<^verbatim>\<open>id\<close> is \<open>layer_id\<close> here.\<close>

record ValidationLayer =
  layer_id :: nat
  name :: string
  status :: layer_status
  details :: json
  description :: string
  requirement :: string

text \<open>\<^verbatim>\<open>interface ValidationStatus\<close>\<close>

record ValidationStatus =
  overall_status :: overall
  overall_score :: real
  layers :: "ValidationLayer list"
  last_updated :: string

text \<open>
  A \<^verbatim>\<open>Response\<close>: the status (200 when the source gives none), the
  \<^verbatim>\<open>Content-Type\<close> header and the body before it is printed as JSON text.
\<close>

record Response =
  http_status :: nat
  content_type :: string
  body :: json

definition json_response :: "json \<Rightarrow> Response" where
  "json_response b = \<lparr>http_status = 200, content_type = ''application/json'', body = b\<rparr>"

definition json_response_500 :: "json \<Rightarrow> Response" where
  "json_response_500 b = \<lparr>http_status = 500, content_type = ''application/json'', body = b\<rparr>"

subsection \<open>The inputs of a handler\<close>

text \<open>\<^verbatim>\<open>process.env\<close>: a variable is unset or holds a string; the empty string is falsy.\<close>

record Env =
  VERCEL :: "string option"
  AWS_LAMBDA_FUNCTION_NAME :: "string option"

fun truthy :: "string option \<Rightarrow> bool" where
  "truthy None = False"
| "truthy (Some s) = (s \<noteq> [])"

definition isServerless :: "Env \<Rightarrow> bool" where
  "isServerless env = (truthy (VERCEL env) \<or> truthy (AWS_LAMBDA_FUNCTION_NAME env))"

text \<open>A thrown value: an \<^verbatim>\<open>Error\<close> with its message, or some other value.\<close>

datatype thrown = ErrorValue string | OtherValue

text \<open>
  The first event of the spawned process that reaches the promise:
  \<^verbatim>\<open>close\<close> with the exit code (\<^verbatim>\<open>null\<close>, here \<open>None\<close>, when a signal ended the
  process) and what was collected in \<^verbatim>\<open>output\<close> and \<^verbatim>\<open>errorOutput\<close>, or
  \<^verbatim>\<open>error\<close> with the message of the error.
\<close>

datatype proc_event =
    Close "int option" string string
  | ProcError string

text \<open>
  A run of the part of the handler after the serverless test. Every handler has
  the form
  \<^verbatim>\<open>
  try { const script = path.resolve(...);
        return new Promise((resolve) => { const python = spawn(...); ... }); }
  catch (error) { ... }
  \<close>
  \<^item> \<open>Throws\<close>: a value is thrown in the \<^verbatim>\<open>try\<close> block before the promise is made
    (by \<^verbatim>\<open>path.resolve\<close>); the \<^verbatim>\<open>catch\<close> block runs.
  \<^item> \<open>ExecutorThrows\<close>: a value is thrown inside the function given to
    \<^verbatim>\<open>new Promise\<close> (by \<^verbatim>\<open>spawn\<close>). The promise is rejected; it is returned
    without \<^verbatim>\<open>await\<close>, so the \<^verbatim>\<open>catch\<close> block does not run and the handler gives
    no \<^verbatim>\<open>Response\<close>.
  \<^item> \<open>Spawned\<close>: the process is spawned and an event of it resolves the promise.
\<close>

datatype run = Throws thrown | ExecutorThrows thrown | Spawned proc_event

text \<open>What a handler gives: a \<^verbatim>\<open>Response\<close>, or a promise rejected with a thrown value.\<close>

datatype answer = Answer Response | Rejected thrown

fun answer_body :: "answer \<Rightarrow> json option" where
  "answer_body (Answer r) = Some (body r)"
| "answer_body (Rejected e) = None"

fun answer_status :: "answer \<Rightarrow> nat option" where
  "answer_status (Answer r) = Some (http_status r)"
| "answer_status (Rejected e) = None"

section \<open>The validation-status endpoint\<close>

fun status_text :: "layer_status \<Rightarrow> string" where
  "status_text Pass = ''pass''"
| "status_text Fail = ''fail''"
| "status_text NotImplemented = ''not_implemented''"
| "status_text Partial = ''partial''"

fun overall_text :: "overall \<Rightarrow> string" where
  "overall_text OverallPass = ''pass''"
| "overall_text OverallFail = ''fail''"

text \<open>
  \<^verbatim>\<open>JSON.stringify\<close> of a layer and of a report: the properties in the order the
  object literals of the source list them.
\<close>

definition layer_json :: "ValidationLayer \<Rightarrow> json" where
  "layer_json l = JObj
     [(''id'', JNum (real (layer_id l))),
      (''name'', JStr (name l)),
      (''status'', JStr (status_text (status l))),
      (''description'', JStr (description l)),
      (''requirement'', JStr (requirement l)),
      (''details'', details l)]"

definition status_json :: "ValidationStatus \<Rightarrow> json" where
  "status_json v = JObj
     [(''overall_status'', JStr (overall_text (overall_status v))),
      (''overall_score'', JNum (overall_score v)),
      (''layers'', JArr (map layer_json (layers v))),
      (''last_updated'', JStr (last_updated v))]"

definition plus_minus :: string where
  "plus_minus = [CHR 0xC2, CHR 0xB1]"

definition less_equal_sign :: string where
  "less_equal_sign = [CHR 0xE2, CHR 0x89, CHR 0xA4]"

definition greater_equal_sign :: string where
  "greater_equal_sign = [CHR 0xE2, CHR 0x89, CHR 0xA5]"

definition csv_hash :: string where
  "csv_hash = ''121af74e644fe3ff647a52cb638844f56fc3ac337fef336549eacb207dbd759c''"

definition png_hash :: string where
  "png_hash = ''02ceae783b5df8466d4d04b0b0d7d877c1534565fabe1b1b933134fa91d518e8''"

subsection \<open>The layers of the mock report\<close>

definition mock_layers :: "ValidationLayer list" where
  "mock_layers =
   [\<lparr>layer_id = 1, name = ''Code-level Correctness'', status = Partial,
     details = JObj
       [(''total_tests'', JNum 12), (''passed_tests'', JNum 9), (''failed_tests'', JNum 3),
        (''failures'', JArr
           [JStr ''sigma bounds (hitting 0 and 1 exactly)'',
            JStr (''tanh bounds (hitting '' @ plus_minus @ ''1 exactly)''),
            JStr ''property test bounds violations'']),
        (''note'', JStr ''Mock data - Python validation not available in serverless environment'')],
     description = ''Unit & property tests for each formula'',
     requirement = ''pytest -q returns 0''\<rparr>,
    \<lparr>layer_id = 2, name = ''Simulation Fidelity'', status = Pass,
     details = JObj
       [(''golden_run_implemented'', JBool True),
        (''hash_validation_implemented'', JBool True),
        (''reference_hashes_exist'', JBool True),
        (''csv_hash'', JStr csv_hash), (''png_hash'', JStr png_hash),
        (''note'', JStr ''Mock data - simulated validation results'')],
     description = ''Golden run byte-for-byte reproducibility'',
     requirement = ''SHA-256 hashes match reference''\<rparr>,
    \<lparr>layer_id = 3, name = ''Metric Compliance'', status = Partial,
     details = JObj
       [(''pass_rate'', JNum 0.857), (''passed_metrics'', JNum 6), (''total_metrics'', JNum 7),
        (''failed_metrics'', JArr [JStr ''fluidity'']),
        (''fluidity_variance'', JNum 0.012), (''fluidity_threshold'', JNum 0.01),
        (''stability_percentage'', JNum 0.96), (''stability_threshold'', JNum 0.95),
        (''max_amplitude_ratio'', JNum 8.2),
        (''note'', JStr ''Mock data - improved validation metrics'')],
     description = ''All 7 quantitative criteria pass'',
     requirement = ''All assertions pass, empty criteria_failures.csv''\<rparr>,
    \<lparr>layer_id = 4, name = ''Comparative Edge'', status = Pass,
     details = JObj
       [(''cpu_efficiency_ratio'', JNum 0.04), (''cpu_efficiency_threshold'', JNum 2.0),
        (''cpu_efficiency_passed'', JBool True),
        (''regulation_comparison_implemented'', JBool True),
        (''regulation_passed'', JBool True),
        (''regulation_improvement'', JNum 0.32),
        (''note'', JStr ''Mock data - simulated performance comparison'')],
     description = ''Outperforms Kuramoto control'',
     requirement = ''CPU '' @ less_equal_sign @ '' 2x FPS, Regulation '' @ greater_equal_sign
                   @ '' 25% better''\<rparr>,
    \<lparr>layer_id = 5, name = ''Visual Fidelity'', status = Partial,
     details = JObj
       [(''fig1_implemented'', JBool True), (''fig2_implemented'', JBool False),
        (''pixel_diff_validation'', JBool True),
        (''reference_images_exist'', JBool True),
        (''fig1_pixel_diff'', JNum 0.015),
        (''note'', JStr ''Mock data - partial visual validation'')],
     description = ''Figure generation with pixel-diff validation'',
     requirement = ''Fig 1 & Fig 2 pixel-diff < 2%''\<rparr>]"

subsection \<open>The layers built when the validation process closes\<close>

definition close_layers :: "ValidationLayer list" where
  "close_layers =
   [\<lparr>layer_id = 1, name = ''Code-level Correctness'', status = Fail,
     details = JObj
       [(''total_tests'', JNum 12), (''passed_tests'', JNum 7), (''failed_tests'', JNum 5),
        (''failures'', JArr
           [JStr ''sigma bounds (hitting 0 and 1 exactly)'',
            JStr (''tanh bounds (hitting '' @ plus_minus @ ''1 exactly)''),
            JStr ''missing _compute_S method'',
            JStr ''missing _compute_frequency_modulation method'',
            JStr ''property test bounds violations''])],
     description = ''Unit & property tests for each formula'',
     requirement = ''pytest -q returns 0''\<rparr>,
    \<lparr>layer_id = 2, name = ''Simulation Fidelity'', status = Partial,
     details = JObj
       [(''golden_run_implemented'', JBool True),
        (''hash_validation_implemented'', JBool True),
        (''reference_hashes_exist'', JBool False),
        (''csv_hash'', JStr csv_hash), (''png_hash'', JStr png_hash)],
     description = ''Golden run byte-for-byte reproducibility'',
     requirement = ''SHA-256 hashes match reference''\<rparr>,
    \<lparr>layer_id = 3, name = ''Metric Compliance'', status = Fail,
     details = JObj
       [(''pass_rate'', JNum 0.714), (''passed_metrics'', JNum 5), (''total_metrics'', JNum 7),
        (''failed_metrics'', JArr [JStr ''fluidity'', JStr ''stability'']),
        (''fluidity_variance'', JNum 0.386), (''fluidity_threshold'', JNum 0.01),
        (''stability_percentage'', JNum 0.792), (''stability_threshold'', JNum 0.95),
        (''max_amplitude_ratio'', JNum 257.8)],
     description = ''All 7 quantitative criteria pass'',
     requirement = ''All assertions pass, empty criteria_failures.csv''\<rparr>,
    \<lparr>layer_id = 4, name = ''Comparative Edge'', status = Partial,
     details = JObj
       [(''cpu_efficiency_ratio'', JNum 0.04), (''cpu_efficiency_threshold'', JNum 2.0),
        (''cpu_efficiency_passed'', JBool True),
        (''regulation_comparison_implemented'', JBool False),
        (''regulation_passed'', JNull)],
     description = ''Outperforms Kuramoto control'',
     requirement = ''CPU '' @ less_equal_sign @ '' 2x FPS, Regulation '' @ greater_equal_sign
                   @ '' 25% better''\<rparr>,
    \<lparr>layer_id = 5, name = ''Visual Fidelity'', status = NotImplemented,
     details = JObj
       [(''fig1_implemented'', JBool False), (''fig2_implemented'', JBool False),
        (''pixel_diff_validation'', JBool False),
        (''reference_images_exist'', JBool False)],
     description = ''Figure generation with pixel-diff validation'',
     requirement = ''Fig 1 & Fig 2 pixel-diff < 2%''\<rparr>]"

subsection \<open>Overall score and overall status\<close>

text \<open>
  The block \<^verbatim>\<open>// Calculate overall status\<close> of \<^verbatim>\<open>generateMockValidationStatus\<close>,
  as a function of the array \<^verbatim>\<open>layers\<close> it reads and of the time stamp:
  \<^verbatim>\<open>
  const passedLayers = layers.filter(l => l.status === 'pass').length;
  const partialLayers = layers.filter(l => l.status === 'partial').length;
  const totalLayers = layers.length;
  const overallScore = (passedLayers + partialLayers * 0.5) / totalLayers;
  const overallStatus = overallScore >= 0.8 ? 'pass' : 'fail';
  \<close>
\<close>

definition mock_summary :: "ValidationLayer list \<Rightarrow> string \<Rightarrow> ValidationStatus" where
  "mock_summary ls now =
     (let passedLayers = length (filter (\<lambda>l. status l = Pass) ls);
          partialLayers = length (filter (\<lambda>l. status l = Partial) ls);
          totalLayers = length ls;
          overallScore = (real passedLayers + real partialLayers * 0.5) / real totalLayers;
          overallStatus = (if overallScore \<ge> 0.8 then OverallPass else OverallFail)
      in \<lparr>overall_status = overallStatus, overall_score = overallScore,
          layers = ls, last_updated = now\<rparr>)"

definition generateMockValidationStatus :: "string \<Rightarrow> ValidationStatus" where
  "generateMockValidationStatus now = mock_summary mock_layers now"

text \<open>
  The same block in the \<^verbatim>\<open>close\<close> callback (both versions of the handler):
  \<^verbatim>\<open>
  const passedLayers = layers.filter(l => l.status === 'pass').length;
  const totalLayers = layers.length;
  const overallScore = passedLayers / totalLayers;
  const overallStatus = overallScore === 1.0 ? 'pass' : 'fail';
  \<close>
  For an empty array JavaScript computes \<^verbatim>\<open>0 / 0 = NaN\<close>, which is not \<^verbatim>\<open>1.0\<close>;
  here \<open>0 / 0 = 0\<close>, which is not \<open>1\<close> either.
\<close>

definition close_summary :: "ValidationLayer list \<Rightarrow> string \<Rightarrow> ValidationStatus" where
  "close_summary ls now =
     (let passedLayers = length (filter (\<lambda>l. status l = Pass) ls);
          totalLayers = length ls;
          overallScore = real passedLayers / real totalLayers;
          overallStatus = (if overallScore = 1.0 then OverallPass else OverallFail)
      in \<lparr>overall_status = overallStatus, overall_score = overallScore,
          layers = ls, last_updated = now\<rparr>)"

text \<open>
  The \<^verbatim>\<open>close\<close> callback: \<^verbatim>\<open>python.on('close', (code) => { ... })\<close>. Neither the
  exit code nor the collected output occurs in its body.
\<close>

definition on_close :: "int option \<Rightarrow> string \<Rightarrow> string \<Rightarrow> string \<Rightarrow> ValidationStatus" where
  "on_close code output errorOutput now = close_summary close_layers now"

subsection \<open>The handler without mock data\<close>

text \<open>
  \<^verbatim>\<open>src/frontend/src/routes/validation-status/+server.ts\<close>: the process is always
  spawned; its \<^verbatim>\<open>error\<close> event and an exception give status 500 and an error record.
\<close>

fun thrown_message :: "thrown \<Rightarrow> string" where
  "thrown_message (ErrorValue m) = m"
| "thrown_message OtherValue = ''Unknown error''"

fun GET_validation_status :: "run \<Rightarrow> string \<Rightarrow> answer" where
  "GET_validation_status (Spawned (Close code output errorOutput)) now =
     Answer (json_response (status_json (on_close code output errorOutput now)))"
| "GET_validation_status (Spawned (ProcError message)) now =
     Answer (json_response_500 (JObj [(''error'', JStr ''Failed to run validation''),
                                      (''details'', JStr message)]))"
| "GET_validation_status (ExecutorThrows e) now = Rejected e"
| "GET_validation_status (Throws e) now =
     Answer (json_response_500 (JObj [(''error'', JStr ''Internal server error''),
                                      (''details'', JStr (thrown_message e))]))"

subsection \<open>The handler with mock data\<close>

text \<open>
  The second version of the handler: in a serverless environment, when the
  process cannot be started and when an exception is caught, the answer is the
  mock report.
\<close>

fun GET_validation_status_mock :: "Env \<Rightarrow> run \<Rightarrow> string \<Rightarrow> answer" where
  "GET_validation_status_mock env rn now =
     (if isServerless env
      then Answer (json_response (status_json (generateMockValidationStatus now)))
      else case rn of
          Spawned (Close code output errorOutput) \<Rightarrow>
            Answer (json_response (status_json (on_close code output errorOutput now)))
        | Spawned (ProcError message) \<Rightarrow>
            Answer (json_response (status_json (generateMockValidationStatus now)))
        | ExecutorThrows e \<Rightarrow> Rejected e
        | Throws e \<Rightarrow>
            Answer (json_response (status_json (generateMockValidationStatus now))))"

section \<open>The sim.json endpoint\<close>

text \<open>
  \<^verbatim>\<open>interface SimData { t: number[]; C: number[]; S: number[]; r: number[]; validation?: any }\<close>;
  the mock data carry no \<^verbatim>\<open>validation\<close>. The fields are \<open>sim_t\<close>, \<open>sim_C\<close>,
  \<open>sim_S\<close> and \<open>sim_r\<close> here.
\<close>

record SimData =
  sim_t :: "real list"
  sim_C :: "real list"
  sim_S :: "real list"
  sim_r :: "real list"

text \<open>
  \<^verbatim>\<open>
  const N = 100;
  const t = Array.from({ length: N }, (_, i) => i * 0.2);
  const phi = 1.618;  const epsilon = 0.05;  const omega = 0.1;
  const r = t.map(time => phi + epsilon * Math.sin(2 * Math.PI * omega * time));
  const S = t.map(time => Math.sin(2 * Math.PI * 0.1 * time) * Math.exp(-time * 0.01));
  const C = t.map(time => 0.5 + 0.3 * Math.cos(2 * Math.PI * 0.05 * time));
  return { t, C, S, r };
  \<close>
\<close>

definition generateMockSimData :: SimData where
  "generateMockSimData =
     (let N = 100;
          t = map (\<lambda>i. real i * 0.2) [0..<N];
          phi = 1.618;
          epsilon = 0.05;
          omega = 0.1;
          r = map (\<lambda>time. phi + epsilon * sin (2 * pi * omega * time)) t;
          S = map (\<lambda>time. sin (2 * pi * 0.1 * time) * exp (- time * 0.01)) t;
          C = map (\<lambda>time. 0.5 + 0.3 * cos (2 * pi * 0.05 * time)) t
      in \<lparr>sim_t = t, sim_C = C, sim_S = S, sim_r = r\<rparr>)"

text \<open>The properties of \<^verbatim>\<open>{ t, C, S, r }\<close>, which \<^verbatim>\<open>...mockData\<close> spreads.\<close>

definition sim_fields :: "SimData \<Rightarrow> (string \<times> json) list" where
  "sim_fields d =
     [(''t'', JArr (map JNum (sim_t d))),
      (''C'', JArr (map JNum (sim_C d))),
      (''S'', JArr (map JNum (sim_S d))),
      (''r'', JArr (map JNum (sim_r d)))]"

subsection \<open>The handler without mock data\<close>

text \<open>
  \<^verbatim>\<open>parse\<close> is \<^verbatim>\<open>JSON.parse\<close>: \<open>None\<close> when it throws. A \<^verbatim>\<open>null\<close> exit code is
  not \<^verbatim>\<open>0\<close>.
\<close>

fun GET_sim :: "(string \<Rightarrow> json option) \<Rightarrow> run \<Rightarrow> answer" where
  "GET_sim parse (Spawned (Close code output errorOutput)) =
     (if code \<noteq> Some 0
      then Answer (json_response_500 (JObj [(''error'', JStr ''Simulation failed''),
                                            (''details'', JStr errorOutput)]))
      else case parse output of
          Some data \<Rightarrow> Answer (json_response data)
        | None \<Rightarrow> Answer (json_response_500
                    (JObj [(''error'', JStr ''Failed to parse simulation results'')])))"
| "GET_sim parse (Spawned (ProcError message)) =
     Answer (json_response_500 (JObj [(''error'', JStr ''Failed to start simulation''),
                                      (''details'', JStr message)]))"
| "GET_sim parse (ExecutorThrows e) = Rejected e"
| "GET_sim parse (Throws e) =
     Answer (json_response_500 (JObj [(''error'', JStr ''Internal server error''),
                                      (''details'', JStr (thrown_message e))]))"

subsection \<open>The handler with mock data\<close>

fun GET_sim_mock :: "(string \<Rightarrow> json option) \<Rightarrow> Env \<Rightarrow> run \<Rightarrow> answer" where
  "GET_sim_mock parse env rn =
     (if isServerless env
      then Answer (json_response (JObj (sim_fields generateMockSimData @
             [(''note'',
               JStr ''Mock data - Python backend not available in serverless environment'')])))
      else case rn of
          Spawned (Close code output errorOutput) \<Rightarrow>
            (if code \<noteq> Some 0
             then Answer (json_response (JObj (sim_fields generateMockSimData @
                    [(''note'', JStr ''Mock data - Python simulation failed''),
                     (''error'', JStr errorOutput)])))
             else case parse output of
                 Some data \<Rightarrow> Answer (json_response data)
               | None \<Rightarrow> Answer (json_response (JObj (sim_fields generateMockSimData @
                    [(''note'',
                      JStr ''Mock data - Failed to parse Python simulation results'')]))))
        | Spawned (ProcError message) \<Rightarrow>
            Answer (json_response (JObj (sim_fields generateMockSimData @
              [(''note'', JStr ''Mock data - Failed to start Python simulation'')])))
        | ExecutorThrows e \<Rightarrow> Rejected e
        | Throws e \<Rightarrow>
            Answer (json_response (JObj (sim_fields generateMockSimData @
              [(''note'', JStr ''Mock data - Internal server error''),
               (''error'', JStr (thrown_message e))]))))"

section \<open>Notions of the specification\<close>

text \<open>
  The weighted fraction of the specification: a layer counts 1 when it passes,
  0.5 when it is partial and 0 when it fails or is not implemented; the sum is
  divided by the number of layers.
\<close>

fun layer_weight :: "layer_status \<Rightarrow> real" where
  "layer_weight Pass = 1"
| "layer_weight Partial = 0.5"
| "layer_weight Fail = 0"
| "layer_weight NotImplemented = 0"

definition weighted_fraction :: "ValidationLayer list \<Rightarrow> real" where
  "weighted_fraction ls = sum_list (map (\<lambda>l. layer_weight (status l)) ls) / real (length ls)"

definition all_pass :: "ValidationLayer list \<Rightarrow> bool" where
  "all_pass ls = list_all (\<lambda>l. status l = Pass) ls"

text \<open>
  The shape of a validation report as the presentation layer reads it: the four
  fields of the report, and five layers with the six fields of a layer and the
  ids 1 to 5 in this order.
\<close>

definition layer_keys :: "string list" where
  "layer_keys = [''id'', ''name'', ''status'', ''details'', ''description'', ''requirement'']"

definition report_keys :: "string list" where
  "report_keys = [''overall_status'', ''overall_score'', ''last_updated'', ''layers'']"

definition report_layers :: "json \<Rightarrow> json list" where
  "report_layers b = (case json_get ''layers'' b of Some ls \<Rightarrow> json_items ls | None \<Rightarrow> [])"

definition report_shape :: "json \<Rightarrow> bool" where
  "report_shape b =
     (is_object b \<and> distinct (json_keys b) \<and> set (json_keys b) = set report_keys \<and>
      length (report_layers b) = 5 \<and>
      list_all (\<lambda>l. is_object l \<and> distinct (json_keys l) \<and> set (json_keys l) = set layer_keys)
        (report_layers b) \<and>
      map (json_get ''id'') (report_layers b) = map (\<lambda>n. Some (JNum (real n))) [1..<6])"

text \<open>The layer of a report with a given id, and a field of its details.\<close>

definition find_layer :: "nat \<Rightarrow> json \<Rightarrow> json option" where
  "find_layer n b = find (\<lambda>l. json_get ''id'' l = Some (JNum (real n))) (report_layers b)"

definition layer_detail :: "string \<Rightarrow> json \<Rightarrow> json option" where
  "layer_detail k l = (case json_get ''details'' l of Some d \<Rightarrow> json_get k d | None \<Rightarrow> None)"

definition layer_field :: "nat \<Rightarrow> string \<Rightarrow> json \<Rightarrow> json option" where
  "layer_field n k b = (case find_layer n b of Some l \<Rightarrow> json_get k l | None \<Rightarrow> None)"

definition layer_detail_at :: "nat \<Rightarrow> string \<Rightarrow> json \<Rightarrow> json option" where
  "layer_detail_at n k b = (case find_layer n b of Some l \<Rightarrow> layer_detail k l | None \<Rightarrow> None)"

fun executor_throws :: "run \<Rightarrow> bool" where
  "executor_throws (ExecutorThrows e) = True"
| "executor_throws (Throws e) = False"
| "executor_throws (Spawned ev) = False"



text \<open>The parameters of the spiral ratio driver in the specification.\<close>

definition phi_target :: real where "phi_target = 1.618"
definition epsilon :: real where "epsilon = 0.05"
definition omega :: real where "omega = 0.1"
definition theta :: real where "theta = 0"

definition spiral_ratio :: "real \<Rightarrow> real" where
  "spiral_ratio time = phi_target + epsilon * sin (2 * pi * omega * time + theta)"

section \<open>Overall status and overall score\<close>

lemma length_filter_all: "length (filter P xs) = length xs \<longleftrightarrow> list_all P xs"
proof (induction xs)
  case Nil
  show ?case by simp
next
  case (Cons x xs)
  have "length (filter P xs) \<le> length xs" by simp
  then have "length (filter P xs) \<noteq> Suc (length xs)" by linarith
  with Cons show ?case by auto
qed

text \<open>
  The gate of the \<^verbatim>\<open>close\<close> callback, \<^verbatim>\<open>overallScore === 1.0\<close>, on any layers:
  every layer passes.
\<close>

lemma close_gate:
  assumes "ls \<noteq> []"
  shows "overall_status (close_summary ls now) = OverallPass \<longleftrightarrow> all_pass ls"
proof -
  have "real (length (filter (\<lambda>l. status l = Pass) ls)) / real (length ls) = 1
        \<longleftrightarrow> length (filter (\<lambda>l. status l = Pass) ls) = length ls"
    using assms by auto
  then show ?thesis
    by (simp add: close_summary_def Let_def all_pass_def length_filter_all)
qed

text \<open>The two reports the handlers build, from the layers of the source.\<close>

lemma on_close_facts:
  "length (layers (on_close code output errorOutput now)) = 5"
  "\<not> all_pass (layers (on_close code output errorOutput now))"
  "overall_status (on_close code output errorOutput now) = OverallFail"
  by (simp_all add: on_close_def close_summary_def close_layers_def all_pass_def Let_def)

lemma mock_facts:
  "length (layers (generateMockValidationStatus now)) = 5"
  "\<not> all_pass (layers (generateMockValidationStatus now))"
  "overall_status (generateMockValidationStatus now) = OverallFail"
  by (simp_all add: generateMockValidationStatus_def mock_summary_def mock_layers_def
      all_pass_def Let_def)

text \<open>
  Claim C1. Every report that is built, by the \<^verbatim>\<open>close\<close> callback for any exit
  code and output or by \<^verbatim>\<open>generateMockValidationStatus\<close>, has five layers, and
  its overall status is pass only if all five layers have the status pass, and
  fail otherwise. (Neither report has five passing layers, and both have the
  overall status fail.)
\<close>

theorem C1_overall_status_all_pass:
  assumes "v = on_close code output errorOutput now \<or> v = generateMockValidationStatus now"
  shows "length (layers v) = 5 \<and>
         (overall_status v = OverallPass \<longleftrightarrow> all_pass (layers v)) \<and>
         (\<not> all_pass (layers v) \<longrightarrow> overall_status v = OverallFail)"
  using assms on_close_facts mock_facts by auto

theorem C1_overall_status_all_pass_witness:
  "length (layers (on_close (Some 0) [] [] [])) = 5 \<and>
   \<not> all_pass (layers (on_close (Some 0) [] [] [])) \<and>
   overall_status (on_close (Some 0) [] [] []) = OverallFail"
proof -
  have n: "\<not> all_pass (layers (on_close (Some 0) [] [] []))"
    by (simp add: on_close_def close_summary_def close_layers_def all_pass_def Let_def)
  show ?thesis
    using n C1_overall_status_all_pass [OF disjI1 [OF refl], of "Some 0" "[]" "[]" "[]"]
    by simp
qed

text \<open>The score of the mock report is the weighted fraction, whatever the layers.\<close>

lemma mock_summary_score: "overall_score (mock_summary ls now) = weighted_fraction ls"
proof -
  have "sum_list (map (\<lambda>l. layer_weight (status l)) ls) =
        real (length (filter (\<lambda>l. status l = Pass) ls))
        + real (length (filter (\<lambda>l. status l = Partial) ls)) * 0.5"
  proof (induction ls)
    case Nil
    show ?case by simp
  next
    case (Cons l ls)
    then show ?case by (cases "status l") simp_all
  qed
  then show ?thesis
    by (simp add: mock_summary_def weighted_fraction_def Let_def)
qed

text \<open>
  Claim C2 at the failing input. When the validation process closes, whatever
  its exit code and output, the reported overall score is 0: the two partial
  layers count nothing. The weighted fraction of the same five layers is 0.2.
\<close>

theorem C2_close_score_ignores_partial:
  "overall_score (on_close code output errorOutput now) = 0 \<and>
   weighted_fraction (layers (on_close code output errorOutput now)) = 0.2 \<and>
   Option.bind
     (answer_body (GET_validation_status (Spawned (Close code output errorOutput)) now))
     (json_get ''overall_score'') = Some (JNum 0)"
  by (simp add: on_close_def close_summary_def close_layers_def Let_def weighted_fraction_def
      status_json_def json_response_def)

section \<open>The mock trace\<close>


lemma sim_r_eq: "sim_r generateMockSimData = map spiral_ratio (sim_t generateMockSimData)"
  by (simp add: generateMockSimData_def Let_def spiral_ratio_def phi_target_def epsilon_def
      omega_def theta_def)

lemma spiral_ratio_bound: "\<bar>spiral_ratio x - phi_target\<bar> \<le> epsilon"
proof -
  have "\<bar>epsilon * sin (2 * pi * omega * x + theta)\<bar> \<le> epsilon * 1"
    unfolding abs_mult using abs_sin_le_one [of "2 * pi * omega * x + theta"]
    by (simp add: epsilon_def)
  then show ?thesis by (simp add: spiral_ratio_def)
qed


text \<open>
  Claim C3. The series \<open>r\<close> of the generated trace is the spiral ratio driver
  \<open>phi_target + epsilon * sin (2 * pi * omega * t + theta)\<close>, with the parameters
  1.618, 0.05, 0.1 and 0, applied to each sample time of the series \<open>t\<close>. Each
  entry is computed from its sample time alone: the global signal does not enter.
\<close>

theorem C3_spiral_ratio_driver:
  "sim_r generateMockSimData =
     map (\<lambda>time. phi_target + epsilon * sin (2 * pi * omega * time + theta))
       (sim_t generateMockSimData) \<and>
   phi_target = 1.618 \<and> epsilon = 0.05 \<and> omega = 0.1 \<and> theta = 0"
  by (simp add: generateMockSimData_def Let_def phi_target_def epsilon_def omega_def theta_def)

text \<open>
  Claim C4. Every sample of the series \<open>r\<close> of the generated trace is within
  \<open>epsilon\<close> of \<open>phi_target\<close>.
\<close>

theorem C4_spiral_ratio_bounded:
  assumes "i < length (sim_r generateMockSimData)"
  shows "\<bar>sim_r generateMockSimData ! i - phi_target\<bar> \<le> epsilon"
proof -
  from assms have "sim_r generateMockSimData ! i = spiral_ratio (sim_t generateMockSimData ! i)"
    by (simp add: sim_r_eq)
  then show ?thesis by (simp add: spiral_ratio_bound)
qed

theorem C4_spiral_ratio_bounded_witness:
  "0 < length (sim_r generateMockSimData) \<and>
   \<bar>sim_r generateMockSimData ! 0 - phi_target\<bar> \<le> epsilon"
proof -
  have l: "0 < length (sim_r generateMockSimData)"
    by (simp add: generateMockSimData_def Let_def)
  show ?thesis using l C4_spiral_ratio_bounded [OF l] by simp
qed




section \<open>The reports of the validation-status endpoint\<close>

lemma keys_sets:
  "set [''overall_status'', ''overall_score'', ''layers'', ''last_updated''] = set report_keys"
  "set [''id'', ''name'', ''status'', ''description'', ''requirement'', ''details'']
     = set layer_keys"
  by (auto simp: report_keys_def layer_keys_def)

lemma ids_1_5: "map (\<lambda>n. Some (JNum (real n))) [1..<6]
   = [Some (JNum 1), Some (JNum 2), Some (JNum 3), Some (JNum 4), Some (JNum 5)]"
  by (simp add: upt_rec)

lemma close_report_shape: "report_shape (status_json (close_summary close_layers now))"
  unfolding report_shape_def ids_1_5 keys_sets [symmetric]
  by (simp add: close_summary_def close_layers_def Let_def status_json_def layer_json_def
      report_layers_def)

lemma mock_report_shape: "report_shape (status_json (generateMockValidationStatus now))"
  unfolding report_shape_def ids_1_5 keys_sets [symmetric]
  by (simp add: generateMockValidationStatus_def mock_summary_def mock_layers_def Let_def
      status_json_def layer_json_def report_layers_def)

text \<open>The handler without mock data answers 200 only with the report of the \<^verbatim>\<open>close\<close> callback.\<close>

lemma GET_validation_status_200:
  "GET_validation_status rn now = Answer r \<Longrightarrow> http_status r = 200 \<Longrightarrow>
   body r = status_json (close_summary close_layers now)"
  by (cases "(rn, now)" rule: GET_validation_status.cases)
     (auto simp add: json_response_def json_response_500_def on_close_def)

text \<open>
  The handler with mock data answers with one of the two reports; it answers
  unless, outside a serverless environment, the executor of the promise throws.
\<close>

lemma GET_validation_status_mock_answer:
  "GET_validation_status_mock env rn now = Answer r \<Longrightarrow>
   http_status r = 200 \<and>
   (body r = status_json (close_summary close_layers now) \<or>
    body r = status_json (generateMockValidationStatus now))"
  by (auto simp add: json_response_def on_close_def
      split: if_splits run.splits proc_event.splits)

lemma GET_validation_status_mock_answers:
  "isServerless env \<or> \<not> executor_throws rn \<Longrightarrow>
   \<exists>r. GET_validation_status_mock env rn now = Answer r"
  by (cases rn) (auto split: proc_event.splits)

text \<open>
  Claim C8. Every validation report the endpoint returns (every answer of the
  handler with mock data, every answer with status 200 of the handler without)
  is a record with the fields overall_status, overall_score, last_updated and
  layers; the layers are five records with the fields id, name, status, details,
  description and requirement, and their ids are 1, 2, 3, 4, 5 in this order.
  The handler with mock data returns such a report on every run, except when
  the executor of the promise throws outside a serverless environment.
\<close>

theorem C8_report_shape:
  "(GET_validation_status rn now = Answer r \<and> http_status r = 200 \<longrightarrow>
      report_shape (body r)) \<and>
   (GET_validation_status_mock env rn now = Answer r' \<longrightarrow>
      http_status r' = 200 \<and> report_shape (body r')) \<and>
   (isServerless env \<or> \<not> executor_throws rn \<longrightarrow>
      (\<exists>a. GET_validation_status_mock env rn now = Answer a))"
proof -
  have a: "GET_validation_status rn now = Answer r \<and> http_status r = 200 \<longrightarrow>
      report_shape (body r)"
    by (auto dest: GET_validation_status_200 simp: close_report_shape)
  have b: "GET_validation_status_mock env rn now = Answer r' \<longrightarrow>
      http_status r' = 200 \<and> report_shape (body r')"
  proof
    assume h: "GET_validation_status_mock env rn now = Answer r'"
    from GET_validation_status_mock_answer [OF h]
    show "http_status r' = 200 \<and> report_shape (body r')"
      by (auto simp: close_report_shape mock_report_shape)
  qed
  have c: "isServerless env \<or> \<not> executor_throws rn \<longrightarrow>
      (\<exists>a. GET_validation_status_mock env rn now = Answer a)"
    using GET_validation_status_mock_answers [of env rn now] by blast
  show ?thesis using a b c by blast
qed

theorem C8_report_shape_witness:
  "GET_validation_status (Spawned (Close (Some 0) [] [])) []
     = Answer (json_response (status_json (on_close (Some 0) [] [] []))) \<and>
   http_status (json_response (status_json (on_close (Some 0) [] [] []))) = 200 \<and>
   report_shape (body (json_response (status_json (on_close (Some 0) [] [] [])))) \<and>
   GET_validation_status_mock \<lparr>VERCEL = Some ''1'', AWS_LAMBDA_FUNCTION_NAME = None\<rparr>
       (ExecutorThrows OtherValue) []
     = Answer (json_response (status_json (generateMockValidationStatus []))) \<and>
   report_shape (body (json_response (status_json (generateMockValidationStatus []))))"
proof -
  have g: "GET_validation_status (Spawned (Close (Some 0) [] [])) []
     = Answer (json_response (status_json (on_close (Some 0) [] [] [])))"
    by simp
  have h: "http_status (json_response (status_json (on_close (Some 0) [] [] []))) = 200"
    by (simp add: json_response_def)
  have m: "GET_validation_status_mock \<lparr>VERCEL = Some ''1'', AWS_LAMBDA_FUNCTION_NAME = None\<rparr>
       (ExecutorThrows OtherValue) []
     = Answer (json_response (status_json (generateMockValidationStatus [])))"
    by (simp add: isServerless_def)
  have s: "isServerless \<lparr>VERCEL = Some ''1'', AWS_LAMBDA_FUNCTION_NAME = None\<rparr>"
    by (simp add: isServerless_def)
  show ?thesis
    using g h m s
      C8_report_shape [of "Spawned (Close (Some 0) [] [])" "[]"
        "json_response (status_json (on_close (Some 0) [] [] []))"
        "\<lparr>VERCEL = Some ''1'', AWS_LAMBDA_FUNCTION_NAME = None\<rparr>"]
      C8_report_shape [of "ExecutorThrows OtherValue" "[]" _
        "\<lparr>VERCEL = Some ''1'', AWS_LAMBDA_FUNCTION_NAME = None\<rparr>"
        "json_response (status_json (generateMockValidationStatus []))"]
    by simp
qed

lemma close_report_status:
  "json_get ''overall_status'' (status_json (close_summary close_layers now))
     = Some (JStr ''fail'')"
  by (simp add: close_summary_def close_layers_def Let_def status_json_def)

lemma mock_report_status:
  "json_get ''overall_status'' (status_json (generateMockValidationStatus now))
     = Some (JStr ''fail'')"
  by (simp add: generateMockValidationStatus_def mock_summary_def mock_layers_def Let_def
      status_json_def)

text \<open>
  Claim C10. Whatever the environment, the time and the run (an exception, a
  process that does not start, a process that closes with any exit code or
  with none), a report the endpoint returns has overall status fail: every
  answer of the handler with mock data, and every answer with status 200 of the
  handler without.
\<close>

theorem C10_never_pass:
  "(GET_validation_status rn now = Answer r \<and> http_status r = 200 \<longrightarrow>
      json_get ''overall_status'' (body r) = Some (JStr ''fail'')) \<and>
   (GET_validation_status_mock env rn now = Answer r' \<longrightarrow>
      json_get ''overall_status'' (body r') = Some (JStr ''fail'')) \<and>
   (isServerless env \<or> \<not> executor_throws rn \<longrightarrow>
      (\<exists>a. GET_validation_status_mock env rn now = Answer a))"
proof -
  have a: "GET_validation_status rn now = Answer r \<and> http_status r = 200 \<longrightarrow>
      json_get ''overall_status'' (body r) = Some (JStr ''fail'')"
    by (auto dest: GET_validation_status_200 simp: close_report_status)
  have b: "GET_validation_status_mock env rn now = Answer r' \<longrightarrow>
      json_get ''overall_status'' (body r') = Some (JStr ''fail'')"
  proof
    assume h: "GET_validation_status_mock env rn now = Answer r'"
    from GET_validation_status_mock_answer [OF h]
    show "json_get ''overall_status'' (body r') = Some (JStr ''fail'')"
      by (auto simp: close_report_status mock_report_status)
  qed
  have c: "isServerless env \<or> \<not> executor_throws rn \<longrightarrow>
      (\<exists>a. GET_validation_status_mock env rn now = Answer a)"
    using GET_validation_status_mock_answers [of env rn now] by blast
  show ?thesis using a b c by blast
qed

theorem C10_never_pass_witness:
  "GET_validation_status (Spawned (Close (Some 1) [] [])) []
     = Answer (json_response (status_json (on_close (Some 1) [] [] []))) \<and>
   http_status (json_response (status_json (on_close (Some 1) [] [] []))) = 200 \<and>
   json_get ''overall_status'' (body (json_response (status_json (on_close (Some 1) [] [] []))))
     = Some (JStr ''fail'') \<and>
   GET_validation_status_mock \<lparr>VERCEL = None, AWS_LAMBDA_FUNCTION_NAME = None\<rparr>
       (Spawned (ProcError ''spawn python3 ENOENT'')) []
     = Answer (json_response (status_json (generateMockValidationStatus []))) \<and>
   json_get ''overall_status'' (body (json_response (status_json (generateMockValidationStatus []))))
     = Some (JStr ''fail'')"
proof -
  have g: "GET_validation_status (Spawned (Close (Some 1) [] [])) []
     = Answer (json_response (status_json (on_close (Some 1) [] [] [])))"
    by simp
  have h: "http_status (json_response (status_json (on_close (Some 1) [] [] []))) = 200"
    by (simp add: json_response_def)
  have m: "GET_validation_status_mock \<lparr>VERCEL = None, AWS_LAMBDA_FUNCTION_NAME = None\<rparr>
       (Spawned (ProcError ''spawn python3 ENOENT'')) []
     = Answer (json_response (status_json (generateMockValidationStatus [])))"
    by (simp add: isServerless_def)
  show ?thesis
    using g h m
      C10_never_pass [of "Spawned (Close (Some 1) [] [])" "[]"
        "json_response (status_json (on_close (Some 1) [] [] []))"]
      C10_never_pass [of "Spawned (ProcError ''spawn python3 ENOENT'')" "[]" _
        "\<lparr>VERCEL = None, AWS_LAMBDA_FUNCTION_NAME = None\<rparr>"
        "json_response (status_json (generateMockValidationStatus []))"]
    by simp
qed

text \<open>
  Claim C5 at the failing input. When the validation process closes, the
  status of layer 1 in the report is fail for every exit code, 0 included, in
  both handlers: the exit code is not read.
\<close>

theorem C5_layer1_ignores_exit_code:
  "Option.bind
     (answer_body (GET_validation_status (Spawned (Close code output errorOutput)) now))
     (layer_field 1 ''status'') = Some (JStr ''fail'') \<and>
   Option.bind
     (answer_body
        (GET_validation_status_mock \<lparr>VERCEL = None, AWS_LAMBDA_FUNCTION_NAME = None\<rparr>
           (Spawned (Close code output errorOutput)) now))
     (layer_field 1 ''status'') = Some (JStr ''fail'')"
  by (simp add: layer_field_def find_layer_def report_layers_def json_response_def on_close_def
      close_summary_def close_layers_def Let_def status_json_def layer_json_def isServerless_def)

text \<open>
  Claim C7 at the failing inputs. No handler reads the file system: whether the
  reference images exist is no input of a handler, and its answer is the same
  with and without them. In a serverless environment, and outside it when the
  process does not start, layer 5 of the report has the status partial, and
  its details say that the reference images exist. When the executor of the
  promise throws outside a serverless environment, neither handler returns a
  report: the promise is rejected.
\<close>

theorem C7_layer5_not_from_images:
  "Option.bind
     (answer_body
        (GET_validation_status_mock \<lparr>VERCEL = Some ''1'', AWS_LAMBDA_FUNCTION_NAME = None\<rparr>
           rn now))
     (layer_field 5 ''status'') = Some (JStr ''partial'') \<and>
   Option.bind
     (answer_body
        (GET_validation_status_mock \<lparr>VERCEL = Some ''1'', AWS_LAMBDA_FUNCTION_NAME = None\<rparr>
           rn now))
     (layer_detail_at 5 ''reference_images_exist'') = Some (JBool True) \<and>
   Option.bind
     (answer_body
        (GET_validation_status_mock \<lparr>VERCEL = None, AWS_LAMBDA_FUNCTION_NAME = None\<rparr>
           (Spawned (ProcError message)) now))
     (layer_field 5 ''status'') = Some (JStr ''partial'') \<and>
   GET_validation_status_mock \<lparr>VERCEL = None, AWS_LAMBDA_FUNCTION_NAME = None\<rparr>
     (ExecutorThrows e) now = Rejected e \<and>
   GET_validation_status (ExecutorThrows e) now = Rejected e"
  by (simp add: layer_field_def layer_detail_at_def layer_detail_def find_layer_def
      report_layers_def json_response_def generateMockValidationStatus_def mock_summary_def
      mock_layers_def Let_def status_json_def layer_json_def isServerless_def)

section \<open>The failure paths of the sim.json endpoint\<close>

lemma sim_fields_keys: "map fst (sim_fields d) = [''t'', ''C'', ''S'', ''r'']"
  by (simp add: sim_fields_def)

text \<open>
  Claim C6 at the failing inputs. Outside a serverless environment, the handler
  with mock data answers a process that does not start, and an output that does
  not parse, with a record of the fields t, C, S, r and note: it has no field
  error. When the executor of the promise throws, neither handler gives a
  \<^verbatim>\<open>Response\<close>: the promise is rejected with the thrown value. When the process
  exits with code 1, the handler without mock data copies what the process
  wrote to its error output, as it is, into the field details.
\<close>

theorem C6_failures_without_error_record:
  "map_option json_keys
     (answer_body (GET_sim_mock parse \<lparr>VERCEL = None, AWS_LAMBDA_FUNCTION_NAME = None\<rparr>
        (Spawned (ProcError message))))
     = Some [''t'', ''C'', ''S'', ''r'', ''note''] \<and>
   map_option json_keys
     (answer_body (GET_sim_mock Map.empty \<lparr>VERCEL = None, AWS_LAMBDA_FUNCTION_NAME = None\<rparr>
        (Spawned (Close (Some 0) output errorOutput))))
     = Some [''t'', ''C'', ''S'', ''r'', ''note''] \<and>
   GET_sim parse (ExecutorThrows e) = Rejected e \<and>
   GET_sim_mock parse \<lparr>VERCEL = None, AWS_LAMBDA_FUNCTION_NAME = None\<rparr> (ExecutorThrows e)
     = Rejected e \<and>
   answer_body (GET_sim parse (Spawned (Close (Some 1) output errorOutput)))
     = Some (JObj [(''error'', JStr ''Simulation failed''), (''details'', JStr errorOutput)])"
  by (simp add: isServerless_def json_response_def json_response_500_def sim_fields_keys)

end
